theory Spec2Isabelle
  imports Main
begin

section \<open>Values of the host language\<close>

text \<open>
  Header values and message texts are strings of 8-bit characters (a header value read
  through the Headers interface is a byte string).  A decoded JSON value is a tree; the
  representation of a number is left open (type variable \<open>'n\<close>), since the client only
  passes numbers through and prints them with the platform's serializer.
\<close>

datatype 'n json =
    JNull
  | JBool bool
  | JNumber 'n
  | JString string
  | JArray "'n json list"
  | JObject "(string \<times> 'n json) list"

text \<open>The \<^verbatim>\<open>typeof\<close> operator on a decoded JSON value: null and arrays are "object".\<close>

fun typeof :: "'n json \<Rightarrow> string" where
  "typeof JNull = ''object''"
| "typeof (JBool b) = ''boolean''"
| "typeof (JNumber n) = ''number''"
| "typeof (JString s) = ''string''"
| "typeof (JArray vs) = ''object''"
| "typeof (JObject kvs) = ''object''"

text \<open>\<^verbatim>\<open>typeof\<close> of a value that may be \<^verbatim>\<open>undefined\<close> (\<open>None\<close>).\<close>

definition typeof_opt :: "'n json option \<Rightarrow> string" where
  "typeof_opt v = (case v of None \<Rightarrow> ''undefined'' | Some x \<Rightarrow> typeof x)"

subsection \<open>String primitives\<close>

definition startsWith :: "string \<Rightarrow> string \<Rightarrow> bool" where
  "startsWith s p = (take (length p) s = p)"

text \<open>\<^verbatim>\<open>toLowerCase\<close> on 8-bit characters: A-Z and the Latin-1 capitals move up by 32.\<close>

definition toLowerChar :: "char \<Rightarrow> char" where
  "toLowerChar c =
     (let n = (of_char c :: nat)
      in if (65 \<le> n \<and> n \<le> 90) \<or> (192 \<le> n \<and> n \<le> 222 \<and> n \<noteq> 215)
         then char_of (n + 32) else c)"

definition toLowerCase :: "string \<Rightarrow> string" where
  "toLowerCase s = map toLowerChar s"

definition digit_char :: "nat \<Rightarrow> char" where
  "digit_char d = char_of (48 + d)"

text \<open>Decimal text of a natural number, as a template literal prints a status code.\<close>

function string_of_nat :: "nat \<Rightarrow> string" where
  "string_of_nat n =
     (if n < 10 then [digit_char n] else string_of_nat (n div 10) @ [digit_char (n mod 10)])"
  by pat_completeness auto
termination
  by (relation "measure id") auto

declare string_of_nat.simps [simp del]

definition hex_char :: "nat \<Rightarrow> char" where
  "hex_char d = (if d < 10 then char_of (48 + d) else char_of (87 + d))"

subsection \<open>JSON.stringify\<close>

text \<open>
  Quoting of one character inside a JSON string: the quote and the backslash are
  escaped, control characters become their short escape or \<^verbatim>\<open>\u00XX\<close>.
\<close>

definition quoteJSONChar :: "char \<Rightarrow> string" where
  "quoteJSONChar c =
     (let n = (of_char c :: nat)
      in if n = 34 then [char_of (92::nat), char_of (34::nat)]
         else if n = 92 then [char_of (92::nat), char_of (92::nat)]
         else if n = 8 then [char_of (92::nat), CHR ''b'']
         else if n = 12 then [char_of (92::nat), CHR ''f'']
         else if n = 10 then [char_of (92::nat), CHR ''n'']
         else if n = 13 then [char_of (92::nat), CHR ''r'']
         else if n = 9 then [char_of (92::nat), CHR ''t'']
         else if n < 32 then
           [char_of (92::nat), CHR ''u'', CHR ''0'', CHR ''0'', hex_char (n div 16), hex_char (n mod 16)]
         else [c])"

definition quoteJSONString :: "string \<Rightarrow> string" where
  "quoteJSONString s = [char_of (34::nat)] @ concat (map quoteJSONChar s) @ [char_of (34::nat)]"

fun join_comma :: "string list \<Rightarrow> string" where
  "join_comma [] = []"
| "join_comma [x] = x"
| "join_comma (x # y # ys) = x @ '','' @ join_comma (y # ys)"

text \<open>
  \<^verbatim>\<open>JSON.stringify\<close> without indentation.  \<open>num\<close> is the platform's printing of a
  number.  The members of an object are printed in the order of the list.
\<close>

fun JSON_stringify :: "('n \<Rightarrow> string) \<Rightarrow> 'n json \<Rightarrow> string" where
  "JSON_stringify num JNull = ''null''"
| "JSON_stringify num (JBool b) = (if b then ''true'' else ''false'')"
| "JSON_stringify num (JNumber n) = num n"
| "JSON_stringify num (JString s) = quoteJSONString s"
| "JSON_stringify num (JArray vs) = ''['' @ join_comma (map (JSON_stringify num) vs) @ '']''"
| "JSON_stringify num (JObject kvs) =
     ''{'' @ join_comma (map (\<lambda>kv. quoteJSONString (fst kv) @ '':'' @ JSON_stringify num (snd kv)) kvs) @ ''}''"

subsection \<open>Number.parseInt\<close>

definition isWhiteSpace :: "char \<Rightarrow> bool" where
  "isWhiteSpace c = ((of_char c :: nat) \<in> {9, 10, 11, 12, 13, 32, 160})"

text \<open>The value of a character as a digit (letters count from 10), if it is one.\<close>

definition digit_value :: "char \<Rightarrow> nat option" where
  "digit_value c =
     (let n = (of_char c :: nat)
      in if 48 \<le> n \<and> n \<le> 57 then Some (n - 48)
         else if 97 \<le> n \<and> n \<le> 122 then Some (n - 87)
         else if 65 \<le> n \<and> n \<le> 90 then Some (n - 55)
         else None)"

definition is_radix_digit :: "nat \<Rightarrow> char \<Rightarrow> bool" where
  "is_radix_digit r c = (case digit_value c of None \<Rightarrow> False | Some d \<Rightarrow> d < r)"

definition radix_value :: "nat \<Rightarrow> string \<Rightarrow> nat" where
  "radix_value r z = foldl (\<lambda>acc c. acc * r + the (digit_value c)) 0 z"

text \<open>
  \<^verbatim>\<open>Number.parseInt(s)\<close> with no radix argument: leading white space is dropped, then an
  optional sign, then an optional \<^verbatim>\<open>0x\<close>/\<^verbatim>\<open>0X\<close> prefix that switches to radix 16; the
  longest run of digits is read.  \<open>None\<close> is NaN.  The result is the mathematical
  integer; the platform rounds it to a double, which keeps its sign, and the client only
  compares the result with zero.
\<close>

definition parseInt :: "string \<Rightarrow> int option" where
  "parseInt inputString =
     (let s = dropWhile isWhiteSpace inputString;
          sign = (if s \<noteq> [] \<and> hd s = CHR ''-'' then - 1 else (1::int));
          s1 = (if s \<noteq> [] \<and> (hd s = CHR ''+'' \<or> hd s = CHR ''-'') then tl s else s);
          hex = (2 \<le> length s1 \<and> (take 2 s1 = ''0x'' \<or> take 2 s1 = ''0X''));
          r = (if hex then 16 else (10::nat));
          s2 = (if hex then drop 2 s1 else s1);
          z = takeWhile (is_radix_digit r) s2
      in if z = [] then None else Some (sign * int (radix_value r z)))"

section \<open>Errors\<close>

text \<open>
  What a call can throw: the four classes derived from \<^verbatim>\<open>RpcError\<close>, and the
  platform's \<^verbatim>\<open>TypeError\<close> (reading a property of \<^verbatim>\<open>null\<close>).  \<open>TimeoutError\<close> and
  \<open>NetworkError\<close> have fixed messages.
\<close>

datatype exn =
    TimeoutError
  | NetworkError
  | UserError string nat
  | ServerError string "nat option"
  | TypeError

text \<open>The constructor of \<^verbatim>\<open>ServerError\<close> prefixes the message it is given.\<close>

definition new_ServerError :: "string \<Rightarrow> nat option \<Rightarrow> exn" where
  "new_ServerError message status = ServerError (''Error talking to server: '' @ message) status"

fun message :: "exn \<Rightarrow> string" where
  "message TimeoutError = ''Error talking to server.  Please try again.''"
| "message NetworkError = ''Error connecting to server.  Please check your connection.''"
| "message (UserError m s) = m"
| "message (ServerError m s) = m"
| "message TypeError = ''''"

fun is_RpcError :: "exn \<Rightarrow> bool" where
  "is_RpcError TypeError = False"
| "is_RpcError e = True"

text \<open>
  The properties the classes of the source give an error object: every error has its
  message, and \<^verbatim>\<open>UserError\<close> and \<^verbatim>\<open>ServerError\<close> declare the field
  \<^verbatim>\<open>status\<close>.  No class declares a method.  (The members of the platform's own
  Error and Object prototypes are left out.)
\<close>

datatype property = Undefined | StringValue string | NumberValue nat

fun get_property :: "exn \<Rightarrow> string \<Rightarrow> property" where
  "get_property e name =
     (if name = ''message'' then StringValue (message e)
      else if name = ''status'' then
        (case e of
           UserError m s \<Rightarrow> NumberValue s
         | ServerError m st \<Rightarrow> (case st of None \<Rightarrow> Undefined | Some s \<Rightarrow> NumberValue s)
         | _ \<Rightarrow> Undefined)
      else Undefined)"

text \<open>
  A call \<^verbatim>\<open>e.name()\<close> with a boolean result: only a function can be called, and no
  property above is one, so the call throws \<^verbatim>\<open>TypeError\<close>.
\<close>

definition call_method :: "exn \<Rightarrow> string \<Rightarrow> exn + bool" where
  "call_method e name =
     (case get_property e name of
        Undefined \<Rightarrow> Inl TypeError
      | StringValue s \<Rightarrow> Inl TypeError
      | NumberValue n \<Rightarrow> Inl TypeError)"

section \<open>The response and its body\<close>

text \<open>
  The transport hands over a response: status, status text, the headers as
  \<^verbatim>\<open>headers.get\<close> answers, and what \<^verbatim>\<open>res.json()\<close> and \<^verbatim>\<open>res.text()\<close> settle
  to.  Reading and decoding the body is the transport's and the JSON decoder's work, so
  both outcomes are data of the response.
\<close>

datatype 'n json_outcome =
    JsonResolved "'n json"
  | JsonSyntaxError
  | JsonOtherError

datatype text_outcome =
    TextResolved string
  | TextRejected

record 'n response =
  status :: nat
  statusText :: string
  headers_get :: "string \<Rightarrow> string option"
  json_body :: "'n json_outcome"
  text_body :: text_outcome

text \<open>What a function did besides returning: body reads and console output, in order.\<close>

datatype io_event = CallJson | CallText | ConsoleError

definition contentTypeHeader :: "'n response \<Rightarrow> string" where
  "contentTypeHeader response =
     toLowerCase (case headers_get response ''content-type'' of None \<Rightarrow> [] | Some v \<Rightarrow> v)"

definition hasBody :: "'n response \<Rightarrow> bool" where
  "hasBody response =
     (let contentLength =
            parseInt (case headers_get response ''content-length'' of None \<Rightarrow> ''0'' | Some v \<Rightarrow> v)
      in case contentLength of None \<Rightarrow> False | Some n \<Rightarrow> n > 0)"

definition readJsonObject ::
  "('n \<Rightarrow> string) \<Rightarrow> 'n response \<Rightarrow> (exn + 'n json) \<times> io_event list" where
  "readJsonObject num res =
     (let contentType = contentTypeHeader res
      in if \<not> startsWith contentType ''application/json'' then
           (Inl (new_ServerError
                  (''server response content-type is not json: '' @ quoteJSONString contentType) None),
            [])
         else
           (case json_body res of
              JsonSyntaxError \<Rightarrow>
                (Inl (new_ServerError ''server returned malformed json data'' None),
                 [CallJson, ConsoleError])
            | JsonOtherError \<Rightarrow> (Inl NetworkError, [CallJson, ConsoleError])
            | JsonResolved result \<Rightarrow>
                if typeof result \<noteq> ''object'' then
                  (Inl (new_ServerError
                         (''server response is not a JSON object: '' @ JSON_stringify num result) None),
                   [CallJson])
                else (Inr result, [CallJson])))"

definition tryReadJsonObject :: "'n response \<Rightarrow> 'n json option \<times> io_event list" where
  "tryReadJsonObject res =
     (if \<not> hasBody res then (None, [])
      else if \<not> startsWith (contentTypeHeader res) ''application/json'' then (None, [])
      else
        (case json_body res of
           JsonResolved result \<Rightarrow>
             if typeof result \<noteq> ''object'' then (None, [CallJson]) else (Some result, [CallJson])
         | JsonSyntaxError \<Rightarrow> (None, [CallJson, ConsoleError])
         | JsonOtherError \<Rightarrow> (None, [CallJson, ConsoleError])))"

definition tryReadText :: "'n response \<Rightarrow> string option \<times> io_event list" where
  "tryReadText res =
     (if \<not> hasBody res then (None, [])
      else if \<not> startsWith (contentTypeHeader res) ''text/plain'' then (None, [])
      else
        (case text_body res of
           TextResolved t \<Rightarrow> (Some t, [CallText])
         | TextRejected \<Rightarrow> (None, [CallText, ConsoleError])))"

text \<open>
  Reading the property \<^verbatim>\<open>user_error_message\<close> of a value: a \<^verbatim>\<open>TypeError\<close> on
  \<^verbatim>\<open>null\<close>, the member of an object if it has one, \<^verbatim>\<open>undefined\<close> (\<open>None\<close>)
  otherwise.
\<close>

fun get_user_error_message :: "'n json \<Rightarrow> exn + 'n json option" where
  "get_user_error_message JNull = Inl TypeError"
| "get_user_error_message (JObject kvs) = Inr (map_of kvs ''user_error_message'')"
| "get_user_error_message v = Inr None"

text \<open>
  The part of \<^verbatim>\<open>doRpc\<close> after the response has arrived.  On the failure path the
  property is read only when the best-effort JSON read gave a value; \<^verbatim>\<open>typeof\<close> of
  the property is "string" exactly for a \<open>JString\<close>.
\<close>

definition doRpc_response ::
  "('n \<Rightarrow> string) \<Rightarrow> 'n response \<Rightarrow> (exn + 'n json) \<times> io_event list" where
  "doRpc_response num response =
     (if 200 \<le> status response \<and> status response \<le> 299 then
        (if \<not> hasBody response then (Inr (JObject []), [])
         else readJsonObject num response)
      else
        (let (responseJson, ev1) = tryReadJsonObject response
         in case (case responseJson of None \<Rightarrow> Inr None | Some v \<Rightarrow> get_user_error_message v) of
              Inl e \<Rightarrow> (Inl e, ev1)
            | Inr (Some (JString m)) \<Rightarrow> (Inl (UserError m (status response)), ev1)
            | Inr _ \<Rightarrow>
                (let (responseText, ev2) = tryReadText response
                 in case responseText of
                      Some t \<Rightarrow>
                        (Inl (new_ServerError
                               (string_of_nat (status response) @ '' '' @ statusText response
                                  @ '', '' @ t)
                               (Some (status response))),
                         ev1 @ ev2)
                    | None \<Rightarrow>
                        (Inl (new_ServerError
                               (string_of_nat (status response) @ '' '' @ statusText response)
                               (Some (status response))),
                         ev1 @ ev2))))"

section \<open>Sending the request\<close>

text \<open>
  The \<^verbatim>\<open>body\<close> argument: a JSON value, or a value that is not JSON data such as a
  \<^verbatim>\<open>Blob\<close> (given here by its bytes).  \<open>None\<close> is \<^verbatim>\<open>undefined\<close>.
\<close>

datatype 'n body_arg = JsonArg "'n json" | BlobArg string

record rpc_opts =
  timeout_ms :: "nat option"
  headers :: "(string \<rightharpoonup> string) option"

text \<open>The options handed to \<^verbatim>\<open>fetch\<close> (the abort signal is part of the race below).\<close>

record request_init =
  ri_cache :: string
  ri_credentials :: string
  ri_headers :: "(string \<rightharpoonup> string) option"
  ri_method :: string
  ri_redirect :: string
  ri_body :: "string option"

text \<open>
  \<^verbatim>\<open>JSON.stringify\<close> of the argument.  A \<^verbatim>\<open>Blob\<close> has no enumerable property of its
  own, so it prints as the empty object.
\<close>

fun stringify_body :: "('n \<Rightarrow> string) \<Rightarrow> 'n body_arg \<Rightarrow> string" where
  "stringify_body num (JsonArg v) = JSON_stringify num v"
| "stringify_body num (BlobArg bytes) = ''{}''"

text \<open>\<^verbatim>\<open>body != undefined\<close>: the loose comparison also holds \<^verbatim>\<open>null\<close> for undefined.\<close>

fun body_given :: "'n body_arg option \<Rightarrow> bool" where
  "body_given None = False"
| "body_given (Some (JsonArg JNull)) = False"
| "body_given (Some b) = True"

definition opts_headers :: "rpc_opts option \<Rightarrow> (string \<rightharpoonup> string) option" where
  "opts_headers opts = (case opts of None \<Rightarrow> None | Some p \<Rightarrow> headers p)"

definition opts_timeout_ms :: "rpc_opts option \<Rightarrow> nat" where
  "opts_timeout_ms opts =
     (case (case opts of None \<Rightarrow> None | Some p \<Rightarrow> timeout_ms p) of None \<Rightarrow> 5000 | Some t \<Rightarrow> t)"

text \<open>The request options \<^verbatim>\<open>doFetch\<close> builds before it calls \<^verbatim>\<open>fetch\<close>.\<close>

definition fetch_options ::
  "('n \<Rightarrow> string) \<Rightarrow> string \<Rightarrow> 'n body_arg option \<Rightarrow> rpc_opts option \<Rightarrow> request_init" where
  "fetch_options num method body opts =
     (let options =
            \<lparr> ri_cache = ''no-store'', ri_credentials = ''omit'', ri_headers = opts_headers opts,
              ri_method = method, ri_redirect = ''error'', ri_body = None \<rparr>
      in case (if body_given body then body else None) of
           None \<Rightarrow> options
         | Some b \<Rightarrow>
             options
               \<lparr> ri_body := Some (stringify_body num b),
                 ri_headers :=
                   Some ([''content-type'' \<mapsto> ''application/json'']
                           ++ (case opts_headers opts of None \<Rightarrow> Map.empty | Some h \<Rightarrow> h)) \<rparr>)"

text \<open>
  What the transport rejects with, and how the call to \<^verbatim>\<open>fetch\<close> settles.  The
  deadline timer and the transport compete: either the transport settles while the timer
  is still armed (\<open>TransportFirst\<close>), or the timer's callback runs first, sets
  \<^verbatim>\<open>timedOut\<close> and aborts the request, and the transport settles after that
  (\<open>TimerFirst\<close>).
\<close>

datatype fetch_error = AbortError | FetchTypeError | OtherFetchError string

datatype 'n fetch_outcome = FetchResolved "'n response" | FetchRejected fetch_error

datatype 'n race = TransportFirst "'n fetch_outcome" | TimerFirst "'n fetch_outcome"

text \<open>The \<^verbatim>\<open>try\<close>/\<^verbatim>\<open>catch\<close> around \<^verbatim>\<open>await fetch\<close>, given the flag the timer sets.\<close>

definition doFetch_settle :: "bool \<Rightarrow> 'n fetch_outcome \<Rightarrow> exn + 'n response" where
  "doFetch_settle timedOut outcome =
     (case outcome of
        FetchResolved response \<Rightarrow> Inr response
      | FetchRejected e \<Rightarrow> if timedOut then Inl TimeoutError else Inl NetworkError)"

text \<open>
  The world outside: for a URL, request options and a deadline in milliseconds, how the
  race between transport and timer goes.
\<close>

type_synonym 'n world = "string \<Rightarrow> request_init \<Rightarrow> nat \<Rightarrow> 'n race"

definition doFetch ::
  "('n \<Rightarrow> string) \<Rightarrow> 'n world \<Rightarrow> string \<Rightarrow> string \<Rightarrow> 'n body_arg option \<Rightarrow> rpc_opts option
     \<Rightarrow> exn + 'n response" where
  "doFetch num world method url body opts =
     (let options = fetch_options num method body opts;
          timeout = opts_timeout_ms opts
      in case world url options timeout of
           TransportFirst outcome \<Rightarrow> doFetch_settle False outcome
         | TimerFirst outcome \<Rightarrow> doFetch_settle True outcome)"

definition doRpc ::
  "('n \<Rightarrow> string) \<Rightarrow> 'n world \<Rightarrow> string \<Rightarrow> string \<Rightarrow> 'n body_arg option \<Rightarrow> rpc_opts option
     \<Rightarrow> (exn + 'n json) \<times> io_event list" where
  "doRpc num world method url body opts =
     (case doFetch num world method url body opts of
        Inl e \<Rightarrow> (Inl e, [])
      | Inr response \<Rightarrow> doRpc_response num response)"



section \<open>Concrete exchanges\<close>

text \<open>
  A response given by its header lines (names in lower case), and a world in which the
  transport answers every request with one response before the deadline.
\<close>

definition response_of ::
  "nat \<Rightarrow> string \<Rightarrow> (string \<times> string) list \<Rightarrow> 'n json_outcome \<Rightarrow> text_outcome \<Rightarrow> 'n response" where
  "response_of code text hs j t =
     \<lparr> status = code, statusText = text, headers_get = map_of hs, json_body = j, text_body = t \<rparr>"

definition answering :: "'n response \<Rightarrow> 'n world" where
  "answering response = (\<lambda>url options timeout. TransportFirst (FetchResolved response))"



text \<open>Characters that \<^verbatim>\<open>JSON.stringify\<close> copies unchanged into a quoted string.\<close>

definition plain_char :: "char \<Rightarrow> bool" where
  "plain_char c = (let n = (of_char c :: nat) in 32 \<le> n \<and> n \<noteq> 34 \<and> n \<noteq> 92)"

section \<open>Auxiliary facts\<close>

lemma parseInt_zero: "parseInt ''0'' = Some 0"
  by (simp add: parseInt_def isWhiteSpace_def is_radix_digit_def digit_value_def radix_value_def)

lemma hasBody_no_header:
  "headers_get response ''content-length'' = None \<Longrightarrow> \<not> hasBody response"
  by (simp add: hasBody_def parseInt_zero)

lemma hasBody_header:
  "headers_get response ''content-length'' = Some v \<Longrightarrow>
     hasBody response = (\<exists>n. parseInt v = Some n \<and> 0 < n)"
  by (simp add: hasBody_def split: option.splits)

lemma doRpc_after_fetch:
  "doFetch num world method url body opts = Inr response \<Longrightarrow>
     doRpc num world method url body opts = doRpc_response num response"
  by (simp add: doRpc_def)

lemma doFetch_answering:
  "doFetch num (answering response) method url body opts = Inr response"
  by (simp add: doFetch_def answering_def doFetch_settle_def)

text \<open>
  The test \<^verbatim>\<open>typeof responseJson.user_error_message === "string"\<close> holds exactly for
  the values that \<open>doRpc_response\<close> matches with \<open>Some (JString m)\<close>.
\<close>

lemma typeof_opt_string: "typeof_opt p = ''string'' \<longleftrightarrow> (\<exists>m. p = Some (JString m))"
proof (cases p)
  case None
  then show ?thesis by (simp add: typeof_opt_def)
next
  case (Some v)
  then show ?thesis by (cases v) (simp_all add: typeof_opt_def)
qed

text \<open>
  A string whose first character after white space and an optional sign is not a
  decimal digit parses to NaN.
\<close>

lemma zero_is_decimal_digit:
  "c = CHR ''0'' \<Longrightarrow> is_radix_digit 10 c"
  by (simp add: is_radix_digit_def digit_value_def)

lemma parseInt_non_numeric:
  assumes "s = dropWhile isWhiteSpace v"
    and "s1 = (if s \<noteq> [] \<and> (hd s = CHR ''+'' \<or> hd s = CHR ''-'') then tl s else s)"
    and "s1 = [] \<or> \<not> is_radix_digit 10 (hd s1)"
  shows "parseInt v = None"
proof -
  define hex where "hex \<longleftrightarrow> 2 \<le> length s1 \<and> (take 2 s1 = ''0x'' \<or> take 2 s1 = ''0X'')"
  have nohex: "\<not> hex"
  proof
    assume "hex"
    then have h: "2 \<le> length s1 \<and> (take 2 s1 = ''0x'' \<or> take 2 s1 = ''0X'')"
      by (simp add: hex_def)
    then obtain a b rest where s1: "s1 = a # b # rest"
      by (cases s1; cases "tl s1") auto
    with h have "a = CHR ''0''" by auto
    with s1 assms(3) show False
      by (simp add: zero_is_decimal_digit)
  qed
  have digits: "takeWhile (is_radix_digit 10) s1 = []"
    using assms(3) by (cases s1) auto
  have "parseInt v =
          (let r = (if hex then 16 else (10::nat));
               z = takeWhile (is_radix_digit r) (if hex then drop 2 s1 else s1)
           in if z = [] then None
              else Some ((if s \<noteq> [] \<and> hd s = CHR ''-'' then - 1 else 1) * int (radix_value r z)))"
    unfolding parseInt_def Let_def hex_def assms(1)[symmetric] assms(2)[symmetric] ..
  with nohex digits show ?thesis
    by (simp add: Let_def)
qed

text \<open>The characters of the escapes, and the quoting of a string spelled out.\<close>

lemma char_of_quote: "char_of (34::nat) = CHR 0x22"
  by code_simp

lemma char_of_backslash: "char_of (92::nat) = CHR 0x5C"
  by code_simp

lemma of_char_eq_char_of: "n < 256 \<Longrightarrow> ((of_char c :: nat) = n) = (c = char_of n)"
  using char_of_eq_iff [of n c] by (auto simp: take_bit_nat_eq_self)

lemma of_char_codes:
  "((of_char c :: nat) = 34) = (c = CHR 0x22)"
  "((of_char c :: nat) = 92) = (c = CHR 0x5C)"
  "((of_char c :: nat) = 8) = (c = CHR 0x08)"
  "((of_char c :: nat) = 12) = (c = CHR 0x0C)"
  "((of_char c :: nat) = 10) = (c = CHR 0x0A)"
  "((of_char c :: nat) = 13) = (c = CHR 0x0D)"
  "((of_char c :: nat) = 9) = (c = CHR 0x09)"
proof -
  have cs: "char_of (8::nat) = CHR 0x08" "char_of (12::nat) = CHR 0x0C"
    "char_of (10::nat) = CHR 0x0A" "char_of (13::nat) = CHR 0x0D" "char_of (9::nat) = CHR 0x09"
    by code_simp+
  show "((of_char c :: nat) = 34) = (c = CHR 0x22)"
    using of_char_eq_char_of [of 34 c] by (simp add: char_of_quote)
  show "((of_char c :: nat) = 92) = (c = CHR 0x5C)"
    using of_char_eq_char_of [of 92 c] by (simp add: char_of_backslash)
  show "((of_char c :: nat) = 8) = (c = CHR 0x08)"
    using of_char_eq_char_of [of 8 c] by (simp add: cs)
  show "((of_char c :: nat) = 12) = (c = CHR 0x0C)"
    using of_char_eq_char_of [of 12 c] by (simp add: cs)
  show "((of_char c :: nat) = 10) = (c = CHR 0x0A)"
    using of_char_eq_char_of [of 10 c] by (simp add: cs)
  show "((of_char c :: nat) = 13) = (c = CHR 0x0D)"
    using of_char_eq_char_of [of 13 c] by (simp add: cs)
  show "((of_char c :: nat) = 9) = (c = CHR 0x09)"
    using of_char_eq_char_of [of 9 c] by (simp add: cs)
qed

lemma quoteJSONChar_text:
  "quoteJSONChar =
     (\<lambda>c. if c = CHR 0x22 then [CHR 0x5C, CHR 0x22]
          else if c = CHR 0x5C then [CHR 0x5C, CHR 0x5C]
          else if c = CHR 0x08 then [CHR 0x5C, CHR ''b'']
          else if c = CHR 0x0C then [CHR 0x5C, CHR ''f'']
          else if c = CHR 0x0A then [CHR 0x5C, CHR ''n'']
          else if c = CHR 0x0D then [CHR 0x5C, CHR ''r'']
          else if c = CHR 0x09 then [CHR 0x5C, CHR ''t'']
          else if (of_char c :: nat) < 32 then
            [CHR 0x5C, CHR ''u'', CHR ''0'', CHR ''0'',
             hex_char (of_char c div 16), hex_char (of_char c mod 16)]
          else [c])"
  unfolding quoteJSONChar_def Let_def of_char_codes char_of_quote char_of_backslash ..

lemma quoteJSONString_text:
  "quoteJSONString s =
     [CHR 0x22]
     @ concat (map (\<lambda>c.
          if c = CHR 0x22 then [CHR 0x5C, CHR 0x22]
          else if c = CHR 0x5C then [CHR 0x5C, CHR 0x5C]
          else if c = CHR 0x08 then [CHR 0x5C, CHR ''b'']
          else if c = CHR 0x0C then [CHR 0x5C, CHR ''f'']
          else if c = CHR 0x0A then [CHR 0x5C, CHR ''n'']
          else if c = CHR 0x0D then [CHR 0x5C, CHR ''r'']
          else if c = CHR 0x09 then [CHR 0x5C, CHR ''t'']
          else if (of_char c :: nat) < 32 then
            [CHR 0x5C, CHR ''u'', CHR ''0'', CHR ''0'',
             hex_char (of_char c div 16), hex_char (of_char c mod 16)]
          else [c]) s)
     @ [CHR 0x22]"
  unfolding quoteJSONString_def char_of_quote quoteJSONChar_text ..

lemma quoteJSONChar_plain: "plain_char c \<Longrightarrow> quoteJSONChar c = [c]"
  by (auto simp: plain_char_def quoteJSONChar_def Let_def)

lemma concat_quote_plain: "\<forall>c \<in> set s. plain_char c \<Longrightarrow> concat (map quoteJSONChar s) = s"
  by (induction s) (simp_all add: quoteJSONChar_plain)

lemma quoteJSONString_plain:
  "\<forall>c \<in> set s. plain_char c \<Longrightarrow> quoteJSONString s = [char_of (34::nat)] @ s @ [char_of (34::nat)]"
  by (simp add: quoteJSONString_def concat_quote_plain)

text \<open>The two best-effort reads never both read the body: their guards exclude each other.\<close>

lemma content_type_guards_exclusive:
  "startsWith ct ''application/json'' \<Longrightarrow> \<not> startsWith ct ''text/plain''"
  by (cases ct) (auto simp: startsWith_def)

section \<open>The classification predicates of ServerError\<close>

text \<open>
  C2. The claim: a ServerError has the predicates is400() and is500(), true exactly for
  a status in [400,499] and in [500,599].  The class declares the field status and a
  constructor only: on the objects of the repository's tests 'is400' and 'is500', which
  expect \<^verbatim>\<open>true\<close>, the property is400 (is500) is undefined and the call throws a
  TypeError.
\<close>

theorem ServerError_is400_is500_undefined:
  "get_property (new_ServerError ''err1'' (Some 400)) ''is400'' = Undefined \<and>
   call_method (new_ServerError ''err1'' (Some 400)) ''is400'' = Inl TypeError \<and>
   get_property (new_ServerError ''err1'' (Some 500)) ''is500'' = Undefined \<and>
   call_method (new_ServerError ''err1'' (Some 500)) ''is500'' = Inl TypeError"
  by (simp add: call_method_def new_ServerError_def)

section \<open>The success path\<close>

text \<open>
  C6. When the transport delivers a response with a status in [200,299] whose
  content-length header is missing, or parses to a value that is at most 0, doRpc
  returns exactly the empty JSON object, and neither \<open>json()\<close> nor \<open>text()\<close> is called on
  the response.
\<close>

theorem doRpc_success_without_body:
  assumes "doFetch num world method url body opts = Inr response"
    and "200 \<le> status response" and "status response \<le> 299"
    and "headers_get response ''content-length'' = None \<or>
         (\<exists>v n. headers_get response ''content-length'' = Some v \<and> parseInt v = Some n \<and> n \<le> 0)"
  shows "doRpc num world method url body opts = (Inr (JObject []), [])"
proof -
  have "\<not> hasBody response"
    using assms(4) by (auto simp: hasBody_no_header hasBody_header)
  with assms(2,3) have "doRpc_response num response = (Inr (JObject []), [])"
    by (simp add: doRpc_response_def)
  with assms(1) show ?thesis
    by (simp add: doRpc_after_fetch)
qed

theorem doRpc_success_without_body_witness:
  "doRpc string_of_nat
     (answering (response_of 200 ''OK'' [(''content-length'', ''0'')] JsonOtherError TextRejected))
     ''POST'' ''http://127.0.0.1/'' (Some (JsonArg (JObject [(''a'', JNumber (1::nat))]))) None
   = (Inr (JObject []), []) \<and>
   doRpc string_of_nat
     (answering (response_of 204 ''No Content'' [] (JsonResolved (JNumber (1::nat))) TextRejected))
     ''GET'' ''http://127.0.0.1/'' None None
   = (Inr (JObject []), [])"
proof -
  let ?r0 = "response_of 200 ''OK'' [(''content-length'', ''0'')] JsonOtherError TextRejected
               :: nat response"
  let ?r1 = "response_of 204 ''No Content'' [] (JsonResolved (JNumber (1::nat))) TextRejected"
  have a: "headers_get ?r0 ''content-length'' = None \<or>
           (\<exists>v n. headers_get ?r0 ''content-length'' = Some v \<and> parseInt v = Some n \<and> n \<le> 0)"
    by (simp add: response_of_def parseInt_zero)
  have b: "headers_get ?r1 ''content-length'' = None \<or>
           (\<exists>v n. headers_get ?r1 ''content-length'' = Some v \<and> parseInt v = Some n \<and> n \<le> 0)"
    by (simp add: response_of_def)
  have s0: "200 \<le> status ?r0" "status ?r0 \<le> 299" by (simp_all add: response_of_def)
  have s1: "200 \<le> status ?r1" "status ?r1 \<le> 299" by (simp_all add: response_of_def)
  show ?thesis
    using doRpc_success_without_body [OF doFetch_answering s0 a]
      doRpc_success_without_body [OF doFetch_answering s1 b]
    by simp
qed

text \<open>
  C10. When the content-length header of the delivered response is present but does not
  parse to a positive integer (NaN, zero or negative), the response counts as having no
  body: with a status in [200,299] doRpc returns the empty object and raises no
  content-type or decode error; with any other status both best-effort reads return
  undefined without reading the body, and doRpc throws the plain ServerError.
\<close>

theorem doRpc_unparsable_content_length:
  assumes "doFetch num world method url body opts = Inr response"
    and "headers_get response ''content-length'' = Some v"
    and "\<not> (\<exists>n. parseInt v = Some n \<and> 0 < n)"
  shows "(200 \<le> status response \<and> status response \<le> 299 \<longrightarrow>
            doRpc num world method url body opts = (Inr (JObject []), [])) \<and>
         (\<not> (200 \<le> status response \<and> status response \<le> 299) \<longrightarrow>
            tryReadJsonObject response = (None, []) \<and>
            tryReadText response = (None, []) \<and>
            doRpc num world method url body opts =
              (Inl (ServerError
                     (''Error talking to server: '' @ string_of_nat (status response) @ '' ''
                        @ statusText response)
                     (Some (status response))), []))"
proof -
  have nb: "\<not> hasBody response"
    using assms(2,3) by (simp add: hasBody_header)
  have j: "tryReadJsonObject response = (None, [])"
    using nb by (simp add: tryReadJsonObject_def)
  have t: "tryReadText response = (None, [])"
    using nb by (simp add: tryReadText_def)
  have ok: "200 \<le> status response \<and> status response \<le> 299 \<Longrightarrow>
              doRpc_response num response = (Inr (JObject []), [])"
    using nb by (simp add: doRpc_response_def)
  have bad: "\<not> (200 \<le> status response \<and> status response \<le> 299) \<Longrightarrow>
               doRpc_response num response =
                 (Inl (ServerError
                        (''Error talking to server: '' @ string_of_nat (status response) @ '' ''
                           @ statusText response)
                        (Some (status response))), [])"
    using j t by (auto simp: doRpc_response_def new_ServerError_def)
  show ?thesis
    using ok bad j t doRpc_after_fetch [OF assms(1)] by auto
qed

theorem doRpc_unparsable_content_length_witness:
  "doRpc string_of_nat
     (answering (response_of 200 ''OK''
        [(''content-type'', ''text/plain''), (''content-length'', ''abc'')]
        (JsonResolved (JNumber (1::nat))) (TextResolved ''a'')))
     ''GET'' ''http://127.0.0.1/'' None None
   = (Inr (JObject []), []) \<and>
   doRpc string_of_nat
     (answering (response_of 400 ''Bad Request''
        [(''content-type'', ''text/plain''), (''content-length'', ''abc'')]
        (JsonResolved (JNumber (1::nat))) (TextResolved ''err1'')))
     ''GET'' ''http://127.0.0.1/'' None None
   = (Inl (ServerError ''Error talking to server: 400 Bad Request'' (Some 400)), [])"
proof -
  let ?hs = "[(''content-type'', ''text/plain''), (''content-length'', ''abc'')]"
  let ?r0 = "response_of 200 ''OK'' ?hs (JsonResolved (JNumber (1::nat))) (TextResolved ''a'')"
  let ?r1 = "response_of 400 ''Bad Request'' ?hs (JsonResolved (JNumber (1::nat)))
               (TextResolved ''err1'')"
  have nan: "parseInt ''abc'' = None"
    by (rule parseInt_non_numeric [where s = "''abc''" and ?s1.0 = "''abc''"])
       (simp_all add: isWhiteSpace_def is_radix_digit_def digit_value_def)
  then have p: "\<not> (\<exists>n. parseInt ''abc'' = Some n \<and> 0 < n)"
    by simp
  have h0: "headers_get ?r0 ''content-length'' = Some ''abc''"
    by (simp add: response_of_def)
  have h1: "headers_get ?r1 ''content-length'' = Some ''abc''"
    by (simp add: response_of_def)
  have n400: "string_of_nat 400 = ''400''"
    by code_simp
  show ?thesis
    using doRpc_unparsable_content_length [OF doFetch_answering h0 p]
      doRpc_unparsable_content_length [OF doFetch_answering h1 p]
    by (simp add: response_of_def n400)
qed

text \<open>
  C7. The claim as worded: the message is exactly the prefix, then
  "server response content-type is not json: ", then the offending content-type between
  two double quotes.  For the content-type \<^verbatim>\<open>text/plain; charset="utf-8"\<close> the
  message of the thrown ServerError is not that text: the two quotes inside the
  content-type are each preceded by a backslash.
\<close>

theorem doRpc_content_type_quoted_counterexample:
  "fst (doRpc string_of_nat
     (answering (response_of 200 ''OK''
        [(''content-type'', ''text/plain; charset='' @ [CHR 0x22] @ ''utf-8'' @ [CHR 0x22]),
         (''content-length'', ''1'')]
        (JsonResolved (JNumber (7::nat))) (TextResolved ''a'')))
     ''GET'' ''http://127.0.0.1/'' None None)
   \<noteq> Inl (ServerError
            (''Error talking to server: server response content-type is not json: ''
               @ [CHR 0x22] @ (''text/plain; charset='' @ [CHR 0x22] @ ''utf-8'' @ [CHR 0x22])
               @ [CHR 0x22])
            None) \<and>
   fst (doRpc string_of_nat
     (answering (response_of 200 ''OK''
        [(''content-type'', ''text/plain; charset='' @ [CHR 0x22] @ ''utf-8'' @ [CHR 0x22]),
         (''content-length'', ''1'')]
        (JsonResolved (JNumber (7::nat))) (TextResolved ''a'')))
     ''GET'' ''http://127.0.0.1/'' None None)
   = Inl (ServerError
            (''Error talking to server: server response content-type is not json: ''
               @ [CHR 0x22] @ (''text/plain; charset='' @ [CHR 0x5C, CHR 0x22] @ ''utf-8''
               @ [CHR 0x5C, CHR 0x22]) @ [CHR 0x22])
            None)"
  by code_simp

text \<open>
  C7, amended.  When the delivered response has a status in [200,299], declares a body,
  and its content-type header, lower-cased (the empty string when the header is
  missing), does not start with application/json, doRpc throws ServerError, not
  NetworkError, with no status and without reading the body.  Its message is exactly
  the prefix "Error talking to server: ", then
  "server response content-type is not json: ", then the lower-cased content-type as a
  JSON string: between two double quotes, with a backslash before every double quote
  and backslash in it, and every control character written as its escape
  (\<^verbatim>\<open>\b \f \n \r \t\<close> or \<^verbatim>\<open>\u00XX\<close>).  When the content-type has no such
  character, that is the lower-cased content-type between two double quotes.
\<close>

theorem doRpc_content_type_not_json:
  assumes "doFetch num world method url body opts = Inr response"
    and "200 \<le> status response" and "status response \<le> 299"
    and "hasBody response"
    and "\<not> startsWith (contentTypeHeader response) ''application/json''"
  shows "doRpc num world method url body opts =
           (Inl (ServerError
                  (''Error talking to server: server response content-type is not json: ''
                     @ [CHR 0x22]
                     @ concat (map (\<lambda>c.
                          if c = CHR 0x22 then [CHR 0x5C, CHR 0x22]
                          else if c = CHR 0x5C then [CHR 0x5C, CHR 0x5C]
                          else if c = CHR 0x08 then [CHR 0x5C, CHR ''b'']
                          else if c = CHR 0x0C then [CHR 0x5C, CHR ''f'']
                          else if c = CHR 0x0A then [CHR 0x5C, CHR ''n'']
                          else if c = CHR 0x0D then [CHR 0x5C, CHR ''r'']
                          else if c = CHR 0x09 then [CHR 0x5C, CHR ''t'']
                          else if (of_char c :: nat) < 32 then
                            [CHR 0x5C, CHR ''u'', CHR ''0'', CHR ''0'',
                             hex_char (of_char c div 16), hex_char (of_char c mod 16)]
                          else [c])
                        (map toLowerChar
                           (case headers_get response ''content-type'' of
                              None \<Rightarrow> [] | Some v \<Rightarrow> v)))
                     @ [CHR 0x22])
                  None), []) \<and>
         fst (doRpc num world method url body opts) \<noteq> Inl NetworkError \<and>
         ((\<forall>c \<in> set (contentTypeHeader response). plain_char c) \<longrightarrow>
            message (projl (fst (doRpc num world method url body opts))) =
              ''Error talking to server: server response content-type is not json: ''
                @ [CHR 0x22] @ contentTypeHeader response @ [CHR 0x22])"
proof -
  have "doRpc_response num response =
          (Inl (ServerError
                 (''Error talking to server: server response content-type is not json: ''
                    @ quoteJSONString (contentTypeHeader response))
                 None), [])"
    using assms(2-5) by (simp add: doRpc_response_def readJsonObject_def new_ServerError_def)
  then have eq: "doRpc num world method url body opts =
          (Inl (ServerError
                 (''Error talking to server: server response content-type is not json: ''
                    @ quoteJSONString (contentTypeHeader response))
                 None), [])"
    using assms(1) by (simp add: doRpc_after_fetch)
  have ct: "contentTypeHeader response =
              map toLowerChar (case headers_get response ''content-type'' of
                                 None \<Rightarrow> [] | Some v \<Rightarrow> v)"
    by (simp add: contentTypeHeader_def toLowerCase_def)
  have plain: "(\<forall>c \<in> set (contentTypeHeader response). plain_char c) \<longrightarrow>
                 quoteJSONString (contentTypeHeader response) =
                   [CHR 0x22] @ contentTypeHeader response @ [CHR 0x22]"
    by (simp add: quoteJSONString_plain char_of_quote)
  show ?thesis
    unfolding eq using plain
    by (simp add: quoteJSONString_text flip: ct)
qed

theorem doRpc_content_type_not_json_witness:
  "doRpc string_of_nat
     (answering (response_of 200 ''OK''
        [(''content-type'', ''Text/Plain; Charset='' @ [CHR 0x22] @ ''UTF-8'' @ [CHR 0x22]),
         (''content-length'', ''1'')]
        (JsonResolved (JNumber (7::nat))) (TextResolved ''a'')))
     ''GET'' ''http://127.0.0.1/'' None None
   = (Inl (ServerError
            (''Error talking to server: server response content-type is not json: ''
               @ [CHR 0x22] @ (''text/plain; charset='' @ [CHR 0x5C, CHR 0x22] @ ''utf-8''
               @ [CHR 0x5C, CHR 0x22]) @ [CHR 0x22])
            None), [])"
proof -
  let ?v = "''Text/Plain; Charset='' @ [CHR 0x22] @ ''UTF-8'' @ [CHR 0x22]"
  let ?r = "response_of 200 ''OK'' [(''content-type'', ?v), (''content-length'', ''1'')]
              (JsonResolved (JNumber (7::nat))) (TextResolved ''a'')"
  have hdr: "headers_get ?r ''content-type'' = Some ?v"
    by (simp add: response_of_def)
  have low: "map toLowerChar ?v = ''text/plain; charset='' @ [CHR 0x22] @ ''utf-8'' @ [CHR 0x22]"
    by code_simp
  have hb: "hasBody ?r"
    by (simp add: hasBody_def response_of_def parseInt_def isWhiteSpace_def is_radix_digit_def
        digit_value_def radix_value_def)
  have st: "200 \<le> status ?r" "status ?r \<le> 299"
    by (simp_all add: response_of_def)
  have nj: "\<not> startsWith (contentTypeHeader ?r) ''application/json''"
    by code_simp
  show ?thesis
    using doRpc_content_type_not_json [OF doFetch_answering st hb nj]
    unfolding hdr option.case low by simp
qed

text \<open>
  C8. When the delivered response has a status in [200,299], declares a body and has a
  JSON content-type: if decoding the body fails with a syntax error, doRpc throws
  ServerError with the fixed text "server returned malformed json data" (behind the
  prefix of every ServerError) and no status; if reading the body fails in any other
  way, doRpc throws NetworkError.
\<close>

theorem doRpc_decode_failure:
  assumes "doFetch num world method url body opts = Inr response"
    and "200 \<le> status response" and "status response \<le> 299"
    and "hasBody response"
    and "startsWith (contentTypeHeader response) ''application/json''"
  shows "(json_body response = JsonSyntaxError \<longrightarrow>
            fst (doRpc num world method url body opts) =
              Inl (new_ServerError ''server returned malformed json data'' None) \<and>
            fst (doRpc num world method url body opts) =
              Inl (ServerError ''Error talking to server: server returned malformed json data'' None)) \<and>
         (json_body response = JsonOtherError \<longrightarrow>
            fst (doRpc num world method url body opts) = Inl NetworkError)"
proof -
  have "doRpc num world method url body opts = readJsonObject num response"
    using assms(1-4) by (simp add: doRpc_after_fetch doRpc_response_def)
  then show ?thesis
    using assms(5) by (simp add: readJsonObject_def new_ServerError_def)
qed

theorem doRpc_decode_failure_witness:
  "fst (doRpc string_of_nat
     (answering (response_of 200 ''OK''
        [(''content-type'', ''application/json''), (''content-length'', ''1'')]
        JsonSyntaxError (TextResolved ''$'')))
     ''GET'' ''http://127.0.0.1/'' None None)
   = Inl (ServerError ''Error talking to server: server returned malformed json data'' None) \<and>
   fst (doRpc string_of_nat
     (answering (response_of 200 ''OK''
        [(''content-type'', ''application/json''), (''content-length'', ''10'')]
        JsonOtherError TextRejected))
     ''GET'' ''http://127.0.0.1/'' None None)
   = Inl NetworkError"
proof -
  let ?r0 = "response_of 200 ''OK'' [(''content-type'', ''application/json''), (''content-length'', ''1'')]
               JsonSyntaxError (TextResolved ''$'') :: nat response"
  let ?r1 = "response_of 200 ''OK'' [(''content-type'', ''application/json''), (''content-length'', ''10'')]
               JsonOtherError TextRejected :: nat response"
  have ct: "startsWith (contentTypeHeader ?r0) ''application/json''"
    "startsWith (contentTypeHeader ?r1) ''application/json''"
    by (simp_all add: contentTypeHeader_def response_of_def toLowerCase_def toLowerChar_def
        startsWith_def)
  have hb: "hasBody ?r0" "hasBody ?r1"
    by (simp_all add: hasBody_def response_of_def parseInt_def isWhiteSpace_def is_radix_digit_def
        digit_value_def radix_value_def)
  have st: "200 \<le> status ?r0" "status ?r0 \<le> 299" "200 \<le> status ?r1" "status ?r1 \<le> 299"
    by (simp_all add: response_of_def)
  show ?thesis
    using doRpc_decode_failure [OF doFetch_answering st(1,2) hb(1) ct(1)]
      doRpc_decode_failure [OF doFetch_answering st(3,4) hb(2) ct(2)]
    by (simp add: response_of_def new_ServerError_def)
qed

section \<open>The failure path\<close>

text \<open>
  C5. When the delivered response has a status outside [200,299] and the best-effort
  JSON read gives an object with a string member user_error_message, doRpc throws
  UserError with exactly that string and the status of the response.  Only the JSON body
  has been read then: the text read is not attempted and no ServerError is built,
  whatever the text of the body is.
\<close>

theorem doRpc_user_error_message:
  assumes "doFetch num world method url body opts = Inr response"
    and "\<not> (200 \<le> status response \<and> status response \<le> 299)"
    and "tryReadJsonObject response = (Some (JObject kvs), ev)"
    and "map_of kvs ''user_error_message'' = Some (JString m)"
  shows "doRpc num world method url body opts = (Inl (UserError m (status response)), ev) \<and>
         ev = [CallJson] \<and>
         doRpc num world method url (body :: 'n body_arg option) opts =
           doRpc num (answering (response\<lparr>text_body := t\<rparr>)) method url body opts"
proof -
  have ev: "ev = [CallJson]"
    using assms(3)
    by (auto simp: tryReadJsonObject_def split: if_splits json_outcome.splits)
  have r: "doRpc_response num response = (Inl (UserError m (status response)), ev)"
    using assms(2-4) by (auto simp: doRpc_response_def)
  have "tryReadJsonObject (response\<lparr>text_body := t\<rparr>) = tryReadJsonObject response"
    by (simp add: tryReadJsonObject_def hasBody_def contentTypeHeader_def)
  then have "doRpc_response num (response\<lparr>text_body := t\<rparr>) = (Inl (UserError m (status response)), ev)"
    using assms(2-4) by (auto simp: doRpc_response_def)
  then have "doRpc num (answering (response\<lparr>text_body := t\<rparr>)) method url body opts =
               (Inl (UserError m (status response)), ev)"
    by (simp add: doRpc_after_fetch [OF doFetch_answering])
  with r ev assms(1) show ?thesis
    by (simp add: doRpc_after_fetch)
qed

theorem doRpc_user_error_message_witness:
  "doRpc string_of_nat
     (answering (response_of 400 ''Bad Request''
        [(''content-type'', ''application/json''), (''content-length'', ''29'')]
        (JsonResolved (JObject [(''user_error_message'', JString ''err1'')]))
        (TextResolved ''{\"user_error_message\":\"err1\"}'')))
     ''GET'' ''http://127.0.0.1/'' None None
   = (Inl (UserError ''err1'' 400), [CallJson])"
proof -
  let ?r = "response_of 400 ''Bad Request''
              [(''content-type'', ''application/json''), (''content-length'', ''29'')]
              (JsonResolved (JObject [(''user_error_message'', JString ''err1'')]))
              (TextResolved ''{\"user_error_message\":\"err1\"}'') :: nat response"
  have st: "\<not> (200 \<le> status ?r \<and> status ?r \<le> 299)"
    by (simp add: response_of_def)
  have j: "tryReadJsonObject ?r =
             (Some (JObject [(''user_error_message'', JString ''err1'')]), [CallJson])"
    by code_simp
  have m: "map_of [(''user_error_message'', JString ''err1'' :: nat json)] ''user_error_message''
             = Some (JString ''err1'')"
    by simp
  show ?thesis
    using doRpc_user_error_message [OF doFetch_answering st j m]
    by (simp add: response_of_def)
qed

text \<open>
  On the failure path every outcome is a UserError or a ServerError carrying the status,
  unless the best-effort JSON read returned \<^verbatim>\<open>null\<close>.
\<close>

lemma failure_path_kinds:
  assumes "\<not> (200 \<le> status response \<and> status response \<le> 299)"
    and "fst (tryReadJsonObject response) \<noteq> Some JNull"
  shows "\<exists>m. fst (doRpc_response num response) = Inl (UserError m (status response)) \<or>
             fst (doRpc_response num response) = Inl (ServerError m (Some (status response)))"
proof -
  obtain rj ev1 where j: "tryReadJsonObject response = (rj, ev1)"
    by (cases "tryReadJsonObject response")
  obtain rt ev2 where t: "tryReadText response = (rt, ev2)"
    by (cases "tryReadText response")
  have nn: "rj \<noteq> Some JNull"
    using assms(2) j by simp
  have "\<exists>p. (case rj of None \<Rightarrow> Inr None | Some v \<Rightarrow> get_user_error_message v) = Inr p"
    using nn by (cases rj; cases "the rj") auto
  then obtain p where p: "(case rj of None \<Rightarrow> Inr None | Some v \<Rightarrow> get_user_error_message v) = Inr p"
    by blast
  show ?thesis
    using assms(1) j t p
    by (cases p; cases "the p"; cases rt)
       (auto simp: doRpc_response_def new_ServerError_def)
qed

text \<open>The best-effort JSON read returns \<^verbatim>\<open>null\<close> when the body decodes to it.\<close>

lemma tryReadJsonObject_null:
  assumes "hasBody response"
    and "startsWith (contentTypeHeader response) ''application/json''"
    and "json_body response = JsonResolved JNull"
  shows "tryReadJsonObject response = (Some JNull, [CallJson])"
  using assms by (simp add: tryReadJsonObject_def)

lemma failure_path_null_TypeError:
  assumes "\<not> (200 \<le> status response \<and> status response \<le> 299)"
    and "hasBody response"
    and "startsWith (contentTypeHeader response) ''application/json''"
    and "json_body response = JsonResolved JNull"
  shows "doRpc_response num response = (Inl TypeError, [CallJson])"
  using assms(1) tryReadJsonObject_null [OF assms(2-4)]
  by (auto simp: doRpc_response_def)

text \<open>
  C1. The claim: every response with a status outside [200,299] makes doRpc throw a
  UserError or a ServerError, whatever the body, also when the body decodes to
  \<^verbatim>\<open>null\<close>.  At status 400 with a JSON content-type, content-length 4 and the body
  \<^verbatim>\<open>null\<close>, the best-effort read returns \<^verbatim>\<open>null\<close> (its \<^verbatim>\<open>typeof\<close> is "object"),
  and reading its property user_error_message throws a TypeError, which is none of the
  four kinds.
\<close>

theorem doRpc_null_error_body_TypeError:
  "doRpc string_of_nat
     (answering (response_of 400 ''Bad Request''
        [(''content-type'', ''application/json''), (''content-length'', ''4'')]
        (JsonResolved JNull) (TextResolved ''null'')))
     ''GET'' ''http://127.0.0.1/'' None None
   = (Inl TypeError, [CallJson]) \<and> \<not> is_RpcError TypeError"
  by code_simp

section \<open>Decoded values that are not JSON objects\<close>

text \<open>
  On the success path a decoded number, string or boolean is rejected with the
  ServerError that prints the value.
\<close>

lemma readJsonObject_primitive:
  assumes "startsWith (contentTypeHeader response) ''application/json''"
    and "json_body response = JsonResolved v"
    and "v = JNumber n \<or> v = JString s \<or> v = JBool b"
  shows "readJsonObject num response =
           (Inl (ServerError
                  (''Error talking to server: server response is not a JSON object: ''
                     @ JSON_stringify num v) None), [CallJson])"
  using assms by (auto simp: readJsonObject_def new_ServerError_def)

lemma readJsonObject_null_or_array:
  assumes "startsWith (contentTypeHeader response) ''application/json''"
    and "json_body response = JsonResolved v"
    and "v = JNull \<or> v = JArray vs"
  shows "readJsonObject num response = (Inr v, [CallJson])"
  using assms by (auto simp: readJsonObject_def)

text \<open>
  C4. The claim: a 2xx response with a body and a JSON content-type whose decoded value
  is not a JSON object (a number, a string, a boolean, \<^verbatim>\<open>null\<close> or an array) makes
  doRpc throw ServerError "server response is not a JSON object: ...".  At status 200
  with the body \<^verbatim>\<open>null\<close> doRpc throws nothing and returns \<^verbatim>\<open>null\<close>; with the body
  \<^verbatim>\<open>[]\<close> it returns the array.
\<close>

theorem doRpc_null_success_body_returned:
  "doRpc string_of_nat
     (answering (response_of 200 ''OK''
        [(''content-type'', ''application/json''), (''content-length'', ''4'')]
        (JsonResolved JNull) (TextResolved ''null'')))
     ''GET'' ''http://127.0.0.1/'' None None
   = (Inr JNull, [CallJson]) \<and>
   doRpc string_of_nat
     (answering (response_of 200 ''OK''
        [(''content-type'', ''application/json''), (''content-length'', ''2'')]
        (JsonResolved (JArray [])) (TextResolved ''[]'')))
     ''GET'' ''http://127.0.0.1/'' None None
   = (Inr (JArray []), [CallJson])"
  by code_simp

section \<open>The request\<close>

text \<open>
  C3. The claim: a body that is an opaque binary payload is sent unchanged, and no
  content-type is forced onto the request.  For the payload of the bytes "a1" (the
  repository's test 'POST blob'), the options given to fetch carry the text
  \<^verbatim>\<open>{}\<close>, the JSON serialization of the Blob object, and the header
  content-type: application/json.
\<close>

theorem fetch_options_blob_serialized:
  "ri_body (fetch_options string_of_nat ''POST'' (Some (BlobArg ''a1'')) None) = Some ''{}'' \<and>
   ri_body (fetch_options string_of_nat ''POST'' (Some (BlobArg ''a1'')) None) \<noteq> Some ''a1'' \<and>
   map_option (\<lambda>h. h ''content-type'')
     (ri_headers (fetch_options string_of_nat ''POST'' (Some (BlobArg ''a1'')) None))
     = Some (Some ''application/json'')"
  by (simp add: fetch_options_def opts_headers_def)

text \<open>Every given body is serialized and gets the JSON content-type unless the caller set one.\<close>

lemma fetch_options_body_given:
  assumes "body_given (Some b)"
  shows "ri_body (fetch_options num method (Some b) opts) = Some (stringify_body num b)"
    and "opts_headers opts = None \<Longrightarrow>
           ri_headers (fetch_options num method (Some b) opts)
             = Some [''content-type'' \<mapsto> ''application/json'']"
  using assms by (simp_all add: fetch_options_def)

section \<open>Timeout against transport failure\<close>



end
